theory Spec2Isabelle
  imports Complex_Main
begin

section \<open>Synthetic flare-gas generator (generation.py)\<close>

text \<open>
  The generator of \<open>generation.py\<close> is embedded as a state-passing function.  Python floats
  are modelled by the reals, the two random sources (\<open>random\<close> and \<open>numpy.random\<close>) by an
  explicit library record of step functions on their states, and exceptions by the left
  summand of a sum type.
\<close>

subsection \<open>Errors\<close>

datatype error = ValueError string

subsection \<open>Calendar: \<open>datetime\<close>, \<open>timedelta\<close> and hourly timestamps\<close>

text \<open>
  Every \<open>datetime\<close> and pandas \<open>Timestamp\<close> of the program has zero minutes and seconds.
  Such an instant is represented by its number of hours since 0001-01-01T00:00, that is
  \<open>(toordinal - 1) * 24 + hour\<close>; adding \<open>timedelta(hours=k)\<close> is integer addition, and
  equality and order are those of the instants.  The functions below follow CPython's
  \<open>_is_leap\<close>, \<open>_days_before_year\<close>, \<open>_days_in_month\<close>, \<open>_days_before_month\<close>,
  \<open>_ymd2ord\<close> and \<open>_ord2ymd\<close>.
\<close>

type_synonym datetime = int

definition is_leap :: "int \<Rightarrow> bool" where
  "is_leap year \<longleftrightarrow> year mod 4 = 0 \<and> (year mod 100 \<noteq> 0 \<or> year mod 400 = 0)"

definition days_before_year :: "int \<Rightarrow> int" where
  "days_before_year year = (let y = year - 1 in y * 365 + y div 4 - y div 100 + y div 400)"

definition DAYS_IN_MONTH :: "int list" where
  "DAYS_IN_MONTH = [-1, 31, 28, 31, 30, 31, 30, 31, 31, 30, 31, 30, 31]"

definition DAYS_BEFORE_MONTH :: "int list" where
  "DAYS_BEFORE_MONTH = [-1, 0, 31, 59, 90, 120, 151, 181, 212, 243, 273, 304, 334]"

definition days_in_month :: "int \<Rightarrow> int \<Rightarrow> int" where
  "days_in_month year month =
     (if month = 2 \<and> is_leap year then 29 else DAYS_IN_MONTH ! nat month)"

definition days_before_month :: "int \<Rightarrow> int \<Rightarrow> int" where
  "days_before_month year month =
     DAYS_BEFORE_MONTH ! nat month + (if month > 2 \<and> is_leap year then 1 else 0)"

definition ymd2ord :: "int \<Rightarrow> int \<Rightarrow> int \<Rightarrow> int" where
  "ymd2ord year month day = days_before_year year + days_before_month year month + day"

definition ord2ymd :: "int \<Rightarrow> int \<times> int \<times> int" where
  "ord2ymd ordinal =
     (let n = ordinal - 1;
          n400 = n div 146097; n = n mod 146097;
          year = n400 * 400 + 1;
          n100 = n div 36524; n = n mod 36524;
          n4 = n div 1461; n = n mod 1461;
          n1 = n div 365; n = n mod 365;
          year = year + n100 * 100 + n4 * 4 + n1
      in if n1 = 4 \<or> n100 = 4 then (year - 1, 12, 31)
         else
           let leapyear = (n1 = 3 \<and> (n4 \<noteq> 24 \<or> n100 = 3));
               month = (n + 50) div 32;
               preceding = DAYS_BEFORE_MONTH ! nat month
                           + (if month > 2 \<and> leapyear then 1 else 0)
           in if preceding > n
              then let month = month - 1;
                       preceding = preceding
                         - (DAYS_IN_MONTH ! nat month
                            + (if month = 2 \<and> leapyear then 1 else 0))
                   in (year, month, n - preceding + 1)
              else (year, month, n - preceding + 1))"

definition instant :: "int \<Rightarrow> int \<Rightarrow> int \<Rightarrow> int \<Rightarrow> datetime" where
  "instant year month day hour = (ymd2ord year month day - 1) * 24 + hour"

text \<open>The constructor \<open>datetime(year, month, day, hour)\<close> with its range checks.\<close>

definition datetime :: "int \<Rightarrow> int \<Rightarrow> int \<Rightarrow> int \<Rightarrow> error + datetime" where
  "datetime year month day hour =
     (if \<not> (1 \<le> year \<and> year \<le> 9999) then Inl (ValueError ''year is out of range'')
      else if \<not> (1 \<le> month \<and> month \<le> 12) then Inl (ValueError ''month must be in 1..12'')
      else if \<not> (1 \<le> day \<and> day \<le> days_in_month year month)
        then Inl (ValueError ''day is out of range for month'')
      else if \<not> (0 \<le> hour \<and> hour \<le> 23) then Inl (ValueError ''hour must be in 0..23'')
      else Inr (instant year month day hour))"

definition toordinal :: "datetime \<Rightarrow> int" where
  "toordinal dt = dt div 24 + 1"

definition dt_hour :: "datetime \<Rightarrow> int" where
  "dt_hour dt = dt mod 24"

definition dt_month :: "datetime \<Rightarrow> int" where
  "dt_month dt = fst (snd (ord2ymd (toordinal dt)))"

definition weekday :: "datetime \<Rightarrow> int" where
  "weekday dt = (toordinal dt + 6) mod 7"

definition strftime_A :: "datetime \<Rightarrow> string" where
  "strftime_A dt = [''Monday'', ''Tuesday'', ''Wednesday'', ''Thursday'', ''Friday'',
                    ''Saturday'', ''Sunday''] ! nat (weekday dt)"

definition strftime_B :: "datetime \<Rightarrow> string" where
  "strftime_B dt = [''January'', ''February'', ''March'', ''April'', ''May'', ''June'',
                    ''July'', ''August'', ''September'', ''October'', ''November'',
                    ''December''] ! nat (dt_month dt - 1)"

text \<open>
  \<open>pd.date_range(start, end, freq='h')\<close>: the hourly instants from \<open>start\<close> up to and
  including \<open>end\<close>.  The range of years that a pandas \<open>Timestamp\<close> can hold depends on
  its resolution and is not modelled.
\<close>

definition date_range :: "datetime \<Rightarrow> datetime \<Rightarrow> datetime list" where
  "date_range start_date end_date = map (\<lambda>k. start_date + k) [0..end_date - start_date]"

subsection \<open>The random sources\<close>

text \<open>
  \<open>random.seed\<close>, \<open>random.randint\<close>, \<open>random.random\<close>, \<open>np.random.seed\<close> and
  \<open>np.random.normal\<close> are library code: they are parameters of the model.  Each draw maps
  the state of its source to a value and the next state.
\<close>

record ('s, 'n) rand_lib =
  py_seed :: "int \<Rightarrow> 's"
  py_randint :: "'s \<Rightarrow> int \<Rightarrow> int \<Rightarrow> int \<times> 's"
  py_random :: "'s \<Rightarrow> real \<times> 's"
  np_seed :: "int \<Rightarrow> 'n"
  np_normal :: "'n \<Rightarrow> real \<Rightarrow> real \<Rightarrow> real \<times> 'n"

record ('s, 'n) rng =
  py :: 's
  np :: 'n

text \<open>Lines 7 and 8: both sources are seeded with 42 when the module is loaded.\<close>

definition seed_all :: "('s, 'n) rand_lib \<Rightarrow> ('s, 'n) rng \<Rightarrow> ('s, 'n) rng" where
  "seed_all L g = (g\<lparr>np := np_seed L 42\<rparr>)\<lparr>py := py_seed L 42\<rparr>"



text \<open>\<open>np.random.normal(loc, scale)\<close> raises \<open>ValueError\<close> on a negative scale.\<close>

definition normal ::
  "('s, 'n) rand_lib \<Rightarrow> 'n \<Rightarrow> real \<Rightarrow> real \<Rightarrow> error + (real \<times> 'n)" where
  "normal L n loc scale =
     (if scale < 0 then Inl (ValueError ''scale < 0'') else Inr (np_normal L n loc scale))"

definition clip :: "real \<Rightarrow> real \<Rightarrow> real \<Rightarrow> real" where
  "clip a a_min a_max = min (max a a_min) a_max"

text \<open>
  Python's \<open>round(x, 2)\<close>: the nearest multiple of 0.01, a tie going to the even
  neighbour.
\<close>

definition round_half_even :: "real \<Rightarrow> int" where
  "round_half_even x =
     (let f = \<lfloor>x\<rfloor>; d = x - of_int f
      in if d < 1 / 2 then f else if 1 / 2 < d then f + 1
         else if even f then f else f + 1)"

definition round2 :: "real \<Rightarrow> real" where
  "round2 x = of_int (round_half_even (x * 100)) / 100"

subsection \<open>Causes and their configuration\<close>

datatype cause =
  normal_operations | process_upset | equipment_maintenance | startup_shutdown
  | emergency_relief | compressor_trip | instrument_failure

text \<open>The keys of the \<open>contributions\<close> dictionary in insertion order (lines 55 to 63).\<close>

definition all_causes :: "cause list" where
  "all_causes = [normal_operations, process_upset, equipment_maintenance, startup_shutdown,
                 emergency_relief, compressor_trip, instrument_failure]"

datatype cause_params =
  Baseline (baseline: real) (std: real)
  | Event (avg_rate: real) (std: real) (probability: real)

type_synonym config = "cause \<Rightarrow> cause_params"

definition FLARE_CAUSES :: config where
  "FLARE_CAUSES c =
     (case c of
        normal_operations \<Rightarrow> Baseline 100 8
      | process_upset \<Rightarrow> Event 50 15 0.15
      | equipment_maintenance \<Rightarrow> Event 40 12 0.10
      | startup_shutdown \<Rightarrow> Event 200 50 0.00
      | emergency_relief \<Rightarrow> Event 80 25 0.03
      | compressor_trip \<Rightarrow> Event 120 30 0.02
      | instrument_failure \<Rightarrow> Event 60 20 0.02)"

text \<open>
  The program reads \<open>std\<close> of every entry and \<open>avg_rate\<close> and \<open>probability\<close> of the
  six event entries; a dictionary without such a key would raise \<open>KeyError\<close>.  The
  selectors of the model are unspecified there, so a statement about an arbitrary
  configuration is made for configurations of the shape of \<open>FLARE_CAUSES\<close>.
\<close>

definition well_shaped :: "config \<Rightarrow> bool" where
  "well_shaped cfg \<longleftrightarrow>
     (case cfg normal_operations of Baseline b s \<Rightarrow> True | Event a s p \<Rightarrow> False)
     \<and> list_all (\<lambda>c. case cfg c of Baseline b s \<Rightarrow> False | Event a s p \<Rightarrow> True)
          [process_upset, equipment_maintenance, startup_shutdown, emergency_relief,
           compressor_trip, instrument_failure]"

subsection \<open>Shutdown schedule (lines 31 to 43)\<close>

definition shutdown_dates :: "int \<Rightarrow> error + datetime list" where
  "shutdown_dates year =
     (case datetime year 2 15 0 of Inl e \<Rightarrow> Inl e | Inr d1 \<Rightarrow>
       (case datetime year 4 20 0 of Inl e \<Rightarrow> Inl e | Inr d2 \<Rightarrow>
         (case datetime year 7 10 0 of Inl e \<Rightarrow> Inl e | Inr d3 \<Rightarrow>
           (case datetime year 10 5 0 of Inl e \<Rightarrow> Inl e | Inr d4 \<Rightarrow>
              Inr [d1, d2, d3, d4]))))"

text \<open>Lines 42 and 43: the hours of one window, appended in order.\<close>

definition shutdown_window :: "datetime \<Rightarrow> int \<Rightarrow> datetime list" where
  "shutdown_window shutdown_start duration_hours =
     map (\<lambda>h. shutdown_start + h) [0..duration_hours - 1]"

fun schedule_shutdowns ::
  "('s, 'n) rand_lib \<Rightarrow> datetime list \<Rightarrow> datetime list \<Rightarrow> 's \<Rightarrow> datetime list \<times> 's" where
  "schedule_shutdowns L [] shutdown_events p = (shutdown_events, p)"
| "schedule_shutdowns L (shutdown_date # rest) shutdown_events p =
     (let (duration_hours, p1) = py_randint L p 24 72;
          (offset, p2) = py_randint L p1 0 23;
          shutdown_start = shutdown_date + offset
      in schedule_shutdowns L rest
           (shutdown_events @ shutdown_window shutdown_start duration_hours) p2)"

subsection \<open>One hour of the loop (lines 50 to 129)\<close>

type_synonym contributions = "cause \<Rightarrow> real"

text \<open>Lines 66 and 67: the rolling baseline.\<close>

definition update_baseline ::
  "('s, 'n) rand_lib \<Rightarrow> real \<Rightarrow> 'n \<Rightarrow> error + (real \<times> 'n)" where
  "update_baseline L baseline_rate n =
     (case normal L n 0 0.5 of Inl e \<Rightarrow> Inl e
      | Inr (d, n') \<Rightarrow> Inr (clip (baseline_rate + d) 80 120, n'))"

text \<open>Lines 68 to 80: the normal-operations contribution with its daily and seasonal factors.\<close>

definition normal_operations_rate ::
  "config \<Rightarrow> ('s, 'n) rand_lib \<Rightarrow> real \<Rightarrow> 'n \<Rightarrow> datetime \<Rightarrow> error + (real \<times> 'n)" where
  "normal_operations_rate cfg L baseline_rate n dt =
     (case normal L n 0 (std (cfg normal_operations)) of Inl e \<Rightarrow> Inl e
      | Inr (noise, n') \<Rightarrow>
          let v = max 0 (baseline_rate + noise);
              hour = dt_hour dt;
              v = (if 0 \<le> hour \<and> hour < 6 then v * 0.95
                   else if 8 \<le> hour \<and> hour < 16 then v * 1.02 else v);
              month = dt_month dt;
              v = (if 6 \<le> month \<and> month \<le> 8 then v * 1.05 else v)
          in Inr (v, n'))"

text \<open>Lines 92 to 99: the five probabilistic causes.\<close>

fun inject_events ::
  "config \<Rightarrow> ('s, 'n) rand_lib \<Rightarrow> cause list \<Rightarrow> contributions \<Rightarrow> ('s, 'n) rng
     \<Rightarrow> error + (contributions \<times> ('s, 'n) rng)" where
  "inject_events cfg L [] contributions g = Inr (contributions, g)"
| "inject_events cfg L (c # cs) contributions g =
     (let (u, p') = py_random L (py g)
      in if u < probability (cfg c)
         then (case normal L (np g) (avg_rate (cfg c)) (std (cfg c)) of Inl e \<Rightarrow> Inl e
               | Inr (rate, n') \<Rightarrow>
                   inject_events cfg L cs (contributions(c := max 0 rate))
                     \<lparr>py = p', np = n'\<rparr>)
         else inject_events cfg L cs contributions \<lparr>py = p', np = np g\<rparr>)"

text \<open>Lines 83 to 88: the scheduled cause, drawn only in a shutdown hour.\<close>

definition shutdown_contribution ::
  "config \<Rightarrow> ('s, 'n) rand_lib \<Rightarrow> bool \<Rightarrow> contributions \<Rightarrow> 'n
     \<Rightarrow> error + (contributions \<times> 'n)" where
  "shutdown_contribution cfg L is_shutdown contributions n =
     (if is_shutdown
      then (case normal L n (avg_rate (cfg startup_shutdown)) (std (cfg startup_shutdown)) of
              Inl e \<Rightarrow> Inl e
            | Inr (shutdown_rate, n') \<Rightarrow>
                Inr (contributions(startup_shutdown := max 0 shutdown_rate), n'))
      else Inr (contributions, n))"

text \<open>Lines 91 to 99: the other causes, drawn only outside a shutdown hour.\<close>

definition other_causes ::
  "config \<Rightarrow> ('s, 'n) rand_lib \<Rightarrow> bool \<Rightarrow> contributions \<Rightarrow> ('s, 'n) rng
     \<Rightarrow> error + (contributions \<times> ('s, 'n) rng)" where
  "other_causes cfg L is_shutdown contributions g =
     (if \<not> is_shutdown
      then inject_events cfg L
             [process_upset, equipment_maintenance, emergency_relief, compressor_trip,
              instrument_failure] contributions g
      else Inr (contributions, g))"

text \<open>Lines 52 to 99: the contributions of one hour.\<close>

definition hour_contributions ::
  "config \<Rightarrow> ('s, 'n) rand_lib \<Rightarrow> datetime list \<Rightarrow> real \<Rightarrow> ('s, 'n) rng \<Rightarrow> datetime
     \<Rightarrow> error + (contributions \<times> real \<times> ('s, 'n) rng)" where
  "hour_contributions cfg L shutdown_events baseline_rate g dt =
     (let is_shutdown = (dt \<in> set shutdown_events);
          contributions = (\<lambda>c. 0)
      in case update_baseline L baseline_rate (np g) of Inl e \<Rightarrow> Inl e
         | Inr (baseline_rate, n1) \<Rightarrow>
         (case normal_operations_rate cfg L baseline_rate n1 dt of Inl e \<Rightarrow> Inl e
          | Inr (v, n2) \<Rightarrow>
          (case shutdown_contribution cfg L is_shutdown
                  (contributions(normal_operations := v)) n2 of Inl e \<Rightarrow> Inl e
           | Inr (contributions, n3) \<Rightarrow>
           (case other_causes cfg L is_shutdown contributions \<lparr>py = py g, np = n3\<rparr> of
              Inl e \<Rightarrow> Inl e
            | Inr (contributions, g') \<Rightarrow> Inr (contributions, baseline_rate, g')))))"

text \<open>
  \<open>max(items, key=lambda x: x[1])\<close>: the first item is the candidate, and a later item
  replaces it only when its value is strictly greater.
\<close>

fun max_by_value :: "('a \<times> real) \<Rightarrow> ('a \<times> real) list \<Rightarrow> 'a \<times> real" where
  "max_by_value best [] = best"
| "max_by_value best (x # xs) = max_by_value (if snd best < snd x then x else best) xs"

definition py_max_by_value :: "('a \<times> real) list \<Rightarrow> error + ('a \<times> real)" where
  "py_max_by_value items =
     (case items of [] \<Rightarrow> Inl (ValueError ''max() arg is an empty sequence'')
      | x # xs \<Rightarrow> Inr (max_by_value x xs))"

record flare_row =
  timestamp :: datetime
  total_flare_rate_m3_per_hour :: real
  normal_operations_m3_per_hour :: real
  process_upset_m3_per_hour :: real
  equipment_maintenance_m3_per_hour :: real
  startup_shutdown_m3_per_hour :: real
  emergency_relief_m3_per_hour :: real
  compressor_trip_m3_per_hour :: real
  instrument_failure_m3_per_hour :: real
  dominant_cause :: cause
  severity :: string
  day_of_week :: string
  month :: string
  hour :: int

text \<open>Lines 102 to 129: the derived fields and the exported row.\<close>

definition make_row :: "datetime \<Rightarrow> contributions \<Rightarrow> error + flare_row" where
  "make_row dt contributions =
     (let total_flare_rate = sum_list (map contributions all_causes);
          severity = (if total_flare_rate > 350 then ''high''
                      else if total_flare_rate > 200 then ''medium'' else ''low'')
      in case py_max_by_value (map (\<lambda>c. (c, contributions c)) all_causes) of
           Inl e \<Rightarrow> Inl e
         | Inr best \<Rightarrow>
             Inr \<lparr>timestamp = dt,
                  total_flare_rate_m3_per_hour = round2 total_flare_rate,
                  normal_operations_m3_per_hour = round2 (contributions normal_operations),
                  process_upset_m3_per_hour = round2 (contributions process_upset),
                  equipment_maintenance_m3_per_hour =
                    round2 (contributions equipment_maintenance),
                  startup_shutdown_m3_per_hour = round2 (contributions startup_shutdown),
                  emergency_relief_m3_per_hour = round2 (contributions emergency_relief),
                  compressor_trip_m3_per_hour = round2 (contributions compressor_trip),
                  instrument_failure_m3_per_hour = round2 (contributions instrument_failure),
                  dominant_cause = fst best,
                  severity = severity,
                  day_of_week = strftime_A dt,
                  month = strftime_B dt,
                  hour = dt_hour dt\<rparr>)"

definition hour_step ::
  "config \<Rightarrow> ('s, 'n) rand_lib \<Rightarrow> datetime list \<Rightarrow> real \<Rightarrow> ('s, 'n) rng \<Rightarrow> datetime
     \<Rightarrow> error + (flare_row \<times> real \<times> ('s, 'n) rng)" where
  "hour_step cfg L shutdown_events baseline_rate g dt =
     (case hour_contributions cfg L shutdown_events baseline_rate g dt of Inl e \<Rightarrow> Inl e
      | Inr (contributions, baseline_rate', g') \<Rightarrow>
          (case make_row dt contributions of Inl e \<Rightarrow> Inl e
           | Inr row \<Rightarrow> Inr (row, baseline_rate', g')))"

subsection \<open>The generator (lines 22 to 131)\<close>

fun hourly_loop ::
  "config \<Rightarrow> ('s, 'n) rand_lib \<Rightarrow> datetime list \<Rightarrow> real \<Rightarrow> ('s, 'n) rng \<Rightarrow> flare_row list
     \<Rightarrow> datetime list \<Rightarrow> error + (flare_row list \<times> real \<times> ('s, 'n) rng)" where
  "hourly_loop cfg L shutdown_events baseline_rate g data [] = Inr (data, baseline_rate, g)"
| "hourly_loop cfg L shutdown_events baseline_rate g data (dt # dts) =
     (case hour_step cfg L shutdown_events baseline_rate g dt of Inl e \<Rightarrow> Inl e
      | Inr (row, baseline_rate', g') \<Rightarrow>
          hourly_loop cfg L shutdown_events baseline_rate' g' (data @ [row]) dts)"

text \<open>
  The expanded shutdown windows of a year: the anchors of lines 32 to 37 and the loop of
  lines 39 to 43, drawing from the state \<open>p\<close> of the \<open>random\<close> source.
\<close>

definition expand_shutdown_events ::
  "('s, 'n) rand_lib \<Rightarrow> int \<Rightarrow> 's \<Rightarrow> error + (datetime list \<times> 's)" where
  "expand_shutdown_events L year p =
     (case shutdown_dates year of Inl e \<Rightarrow> Inl e
      | Inr dates \<Rightarrow> Inr (schedule_shutdowns L dates [] p))"

text \<open>
  The result holds the table, and with it the last baseline and the states of the random
  sources, which the program keeps in a local and in module globals.
\<close>

definition generate_flare_data ::
  "config \<Rightarrow> ('s, 'n) rand_lib \<Rightarrow> int \<Rightarrow> ('s, 'n) rng
     \<Rightarrow> error + (flare_row list \<times> real \<times> ('s, 'n) rng)" where
  "generate_flare_data cfg L year g =
     (case datetime year 1 1 0 of Inl e \<Rightarrow> Inl e | Inr start_date \<Rightarrow>
       (case datetime year 12 31 23 of Inl e \<Rightarrow> Inl e | Inr end_date \<Rightarrow>
         (case expand_shutdown_events L year (py g) of Inl e \<Rightarrow> Inl e
          | Inr (shutdown_events, p) \<Rightarrow>
              hourly_loop cfg L shutdown_events 100 (g\<lparr>py := p\<rparr>) []
                (date_range start_date end_date))))"

text \<open>Line 195, after the seeding of lines 7 and 8: the run of the script.\<close>

definition script :: "('s, 'n) rand_lib \<Rightarrow> ('s, 'n) rng
     \<Rightarrow> error + (flare_row list \<times> real \<times> ('s, 'n) rng)" where
  "script L g = generate_flare_data FLARE_CAUSES L 2024 (seed_all L g)"


subsection \<open>Reading a result\<close>

text \<open>The table of a run (empty when the run raised) and the shutdown hours of a year.\<close>

definition table ::
  "error + (flare_row list \<times> real \<times> ('s, 'n) rng) \<Rightarrow> flare_row list" where
  "table res = (case res of Inl e \<Rightarrow> [] | Inr (rows, b, g) \<Rightarrow> rows)"

definition shutdown_hours :: "('s, 'n) rand_lib \<Rightarrow> int \<Rightarrow> 's \<Rightarrow> datetime list" where
  "shutdown_hours L year p =
     (case expand_shutdown_events L year p of Inl e \<Rightarrow> [] | Inr (shutdown_events, p') \<Rightarrow>
        shutdown_events)"

text \<open>The exported column of a cause.\<close>

definition exported :: "flare_row \<Rightarrow> cause \<Rightarrow> real" where
  "exported r c =
     (case c of
        normal_operations \<Rightarrow> normal_operations_m3_per_hour r
      | process_upset \<Rightarrow> process_upset_m3_per_hour r
      | equipment_maintenance \<Rightarrow> equipment_maintenance_m3_per_hour r
      | startup_shutdown \<Rightarrow> startup_shutdown_m3_per_hour r
      | emergency_relief \<Rightarrow> emergency_relief_m3_per_hour r
      | compressor_trip \<Rightarrow> compressor_trip_m3_per_hour r
      | instrument_failure \<Rightarrow> instrument_failure_m3_per_hour r)"

subsection \<open>The dominant cause as the specification words it\<close>


subsection \<open>A replaying library for concrete runs\<close>

text \<open>
  A library whose sources replay scripts: seeding installs the script, \<open>random()\<close> and
  \<open>normal\<close> return its next entry (0.5 and the mean once it is exhausted), and
  \<open>randint(a, b)\<close> returns \<open>a\<close>.
\<close>

definition scripted_lib :: "real list \<Rightarrow> real list \<Rightarrow> (real list, real list) rand_lib" where
  "scripted_lib us xs =
     \<lparr>py_seed = (\<lambda>seed. us),
      py_randint = (\<lambda>s a b. (a, s)),
      py_random = (\<lambda>s. case s of [] \<Rightarrow> (1 / 2, []) | u # s' \<Rightarrow> (u, s')),
      np_seed = (\<lambda>seed. xs),
      np_normal = (\<lambda>n loc scale. case n of [] \<Rightarrow> (loc, []) | x # n' \<Rightarrow> (x, n'))\<rparr>"


section \<open>Facts about the model\<close>

subsection \<open>Calendar\<close>

lemmas calendar_defs = instant_def ymd2ord_def days_before_year_def days_before_month_def
  DAYS_BEFORE_MONTH_def days_in_month_def DAYS_IN_MONTH_def Let_def

lemma datetime_jan1: "1 \<le> y \<Longrightarrow> y \<le> 9999 \<Longrightarrow> datetime y 1 1 0 = Inr (instant y 1 1 0)"
  by (simp add: datetime_def days_in_month_def DAYS_IN_MONTH_def)

lemma datetime_dec31: "1 \<le> y \<Longrightarrow> y \<le> 9999 \<Longrightarrow> datetime y 12 31 23 = Inr (instant y 12 31 23)"
  by (simp add: datetime_def days_in_month_def DAYS_IN_MONTH_def)

lemma datetime_year_error: "\<not> (1 \<le> y \<and> y \<le> 9999) \<Longrightarrow> isl (datetime y m d h)"
  by (simp add: datetime_def)

lemma instant_dec31: "instant y 12 31 23 = instant y 1 1 0 + (if is_leap y then 8783 else 8759)"
  by (simp add: calendar_defs)

lemma instant_feb15: "instant y 2 15 0 = instant y 1 1 0 + 1080"
  by (simp add: calendar_defs)

lemma instant_apr20: "instant y 4 20 0 = instant y 1 1 0 + (if is_leap y then 2640 else 2616)"
  by (simp add: calendar_defs)

lemma instant_jul10: "instant y 7 10 0 = instant y 1 1 0 + (if is_leap y then 4584 else 4560)"
  by (simp add: calendar_defs)

lemma instant_oct5: "instant y 10 5 0 = instant y 1 1 0 + (if is_leap y then 6672 else 6648)"
  by (simp add: calendar_defs)

lemma shutdown_dates_valid:
  "1 \<le> y \<Longrightarrow> y \<le> 9999 \<Longrightarrow>
   shutdown_dates y = Inr [instant y 2 15 0, instant y 4 20 0, instant y 7 10 0, instant y 10 5 0]"
  by (simp add: shutdown_dates_def datetime_def days_in_month_def DAYS_IN_MONTH_def)

lemma date_range_upto: "date_range a b = [a..b]"
proof -
  have "map (\<lambda>k. a + k) [0..n] = [a..a + n]" for n
  proof (cases "0 \<le> n")
    case True
    then show ?thesis
    proof (induction n rule: int_ge_induct)
      case base
      show ?case by simp
    next
      case (step i)
      then show ?case by (simp add: upto_rec2 add.assoc)
    qed
  next
    case False
    then show ?thesis by simp
  qed
  from this [of "b - a"] show ?thesis by (simp add: date_range_def)
qed

lemma upto_as_map: "[a..b] = map (\<lambda>k. a + int k) [0..<nat (b - a + 1)]"
  by (rule nth_equalityI) (auto simp: nth_upto)

subsection \<open>The hourly loop\<close>

lemma normal_total: "0 \<le> scale \<Longrightarrow> normal L n loc scale = Inr (np_normal L n loc scale)"
  by (simp add: normal_def)

lemma inject_events_total:
  "\<forall>c. 0 \<le> std (cfg c) \<Longrightarrow> \<exists>res. inject_events cfg L cs contributions g = Inr res"
  by (induction cs arbitrary: contributions g)
     (auto simp: normal_total split: prod.splits)

lemma hour_contributions_total:
  assumes "\<forall>c. 0 \<le> std (cfg c)"
  shows "\<exists>res. hour_contributions cfg L ev b g dt = Inr res"
proof -
  obtain b1 n1 where 1: "update_baseline L b (np g) = Inr (b1, n1)"
    by (cases "np_normal L (np g) 0 0.5") (simp add: update_baseline_def normal_total)
  obtain v n2 where 2: "normal_operations_rate cfg L b1 n1 dt = Inr (v, n2)"
    using assms
    by (cases "np_normal L n1 0 (std (cfg normal_operations))")
       (simp add: normal_operations_rate_def normal_total Let_def)
  obtain c3 n3 where 3:
    "shutdown_contribution cfg L (dt \<in> set ev) ((\<lambda>c. 0)(normal_operations := v)) n2
       = Inr (c3, n3)"
    using assms
    by (cases "np_normal L n2 (avg_rate (cfg startup_shutdown)) (std (cfg startup_shutdown))")
       (cases "dt \<in> set ev", simp_all add: shutdown_contribution_def normal_total)
  obtain c4 g4 where 4:
    "other_causes cfg L (dt \<in> set ev) c3 \<lparr>py = py g, np = n3\<rparr> = Inr (c4, g4)"
  proof (cases "dt \<in> set ev")
    case True
    then show ?thesis using that by (simp add: other_causes_def)
  next
    case False
    obtain res where "inject_events cfg L
        [process_upset, equipment_maintenance, emergency_relief, compressor_trip,
         instrument_failure] c3 \<lparr>py = py g, np = n3\<rparr> = Inr res"
      using inject_events_total [OF assms] by blast
    then show ?thesis using that False by (cases res) (simp add: other_causes_def)
  qed
  show ?thesis by (simp add: hour_contributions_def 1 2 3 4)
qed

lemma make_row_total: "\<exists>row. make_row dt c = Inr row"
  by (simp add: make_row_def py_max_by_value_def all_causes_def Let_def
        del: max_by_value.simps)

lemma make_row_timestamp: "make_row dt c = Inr row \<Longrightarrow> timestamp row = dt"
  by (auto simp: make_row_def py_max_by_value_def all_causes_def Let_def
        simp del: max_by_value.simps)

lemma hour_step_total:
  assumes "\<forall>c. 0 \<le> std (cfg c)"
  shows "\<exists>res. hour_step cfg L ev b g dt = Inr res"
proof -
  obtain c b' g' where "hour_contributions cfg L ev b g dt = Inr (c, b', g')"
    using hour_contributions_total [OF assms] by (metis prod_cases3)
  moreover obtain row where "make_row dt c = Inr row"
    using make_row_total by blast
  ultimately show ?thesis by (simp add: hour_step_def)
qed

lemma hourly_loop_total:
  assumes "\<forall>c. 0 \<le> std (cfg c)"
  shows "\<exists>res. hourly_loop cfg L ev b g data dts = Inr res"
proof (induction dts arbitrary: b g data)
  case Nil
  show ?case by simp
next
  case (Cons dt dts)
  obtain row b' g' where "hour_step cfg L ev b g dt = Inr (row, b', g')"
    using hour_step_total [OF assms] by (metis prod_cases3)
  with Cons.IH [of b' g' "data @ [row]"] show ?case by simp
qed

text \<open>Every row of the table is the export of one hour's contributions.\<close>

lemma hourly_loop_rows:
  assumes "hourly_loop cfg L ev b g data dts = Inr (rows, b', g')"
  shows "\<exists>new. rows = data @ new \<and> map timestamp new = dts
           \<and> (\<forall>r \<in> set new. \<exists>b0 g0 c b1 g1.
                 hour_contributions cfg L ev b0 g0 (timestamp r) = Inr (c, b1, g1)
                 \<and> make_row (timestamp r) c = Inr r)"
  using assms
proof (induction dts arbitrary: b g data)
  case Nil
  then show ?case by simp
next
  case (Cons dt dts)
  from Cons.prems obtain row b1 g1 where
    step: "hour_step cfg L ev b g dt = Inr (row, b1, g1)"
    and rest: "hourly_loop cfg L ev b1 g1 (data @ [row]) dts = Inr (rows, b', g')"
    by (auto split: sum.splits)
  from step obtain c where
    hc: "hour_contributions cfg L ev b g dt = Inr (c, b1, g1)" and mr: "make_row dt c = Inr row"
    by (auto simp: hour_step_def split: sum.splits)
  from Cons.IH [OF rest] obtain new where
    new: "rows = (data @ [row]) @ new" "map timestamp new = dts"
      "\<forall>r \<in> set new. \<exists>b0 g0 c b1 g1.
          hour_contributions cfg L ev b0 g0 (timestamp r) = Inr (c, b1, g1)
          \<and> make_row (timestamp r) c = Inr r"
    by blast
  have ts: "timestamp row = dt" using mr by (rule make_row_timestamp)
  have a: "rows = data @ (row # new)" using new(1) by simp
  have b: "map timestamp (row # new) = dt # dts" using new(2) ts by simp
  have "\<exists>b0 g0 c b1 g1.
          hour_contributions cfg L ev b0 g0 (timestamp row) = Inr (c, b1, g1)
          \<and> make_row (timestamp row) c = Inr row"
    using hc mr ts by blast
  then have c: "\<forall>r \<in> set (row # new). \<exists>b0 g0 c b1 g1.
          hour_contributions cfg L ev b0 g0 (timestamp r) = Inr (c, b1, g1)
          \<and> make_row (timestamp r) c = Inr r"
    using new(3) by simp
  show ?case by (intro exI [of _ "row # new"] conjI a b c)
qed

subsection \<open>The generator\<close>

lemma expand_shutdown_events_valid:
  "1 \<le> year \<Longrightarrow> year \<le> 9999 \<Longrightarrow>
   expand_shutdown_events L year p =
     Inr (schedule_shutdowns L
           [instant year 2 15 0, instant year 4 20 0, instant year 7 10 0, instant year 10 5 0]
           [] p)"
  by (simp add: expand_shutdown_events_def shutdown_dates_valid)

lemma generate_flare_data_valid:
  assumes "1 \<le> year" "year \<le> 9999"
  shows "generate_flare_data cfg L year g =
           hourly_loop cfg L (shutdown_hours L year (py g)) 100
             (g\<lparr>py := snd (schedule_shutdowns L
                 [instant year 2 15 0, instant year 4 20 0, instant year 7 10 0,
                  instant year 10 5 0] [] (py g))\<rparr>) []
             [instant year 1 1 0..instant year 12 31 23]"
  using assms
  by (simp add: generate_flare_data_def datetime_jan1 datetime_dec31 shutdown_hours_def
        expand_shutdown_events_valid date_range_upto split: prod.splits)

lemma generate_flare_data_invalid:
  "\<not> (1 \<le> year \<and> year \<le> 9999) \<Longrightarrow> table (generate_flare_data cfg L year g) = []"
  by (simp add: generate_flare_data_def datetime_def table_def)

lemma table_rows:
  assumes "r \<in> set (table (generate_flare_data cfg L year g))"
  shows "\<exists>b0 g0 c b1 g1.
           hour_contributions cfg L (shutdown_hours L year (py g)) b0 g0 (timestamp r)
             = Inr (c, b1, g1)
           \<and> make_row (timestamp r) c = Inr r"
proof (cases "1 \<le> year \<and> year \<le> 9999")
  case False
  with assms show ?thesis by (simp add: generate_flare_data_invalid)
next
  case True
  show ?thesis
  proof (cases "generate_flare_data cfg L year g")
    case (Inl e)
    with assms show ?thesis by (simp add: table_def)
  next
    case (Inr res)
    obtain rows b g' where res: "res = (rows, b, g')" by (cases res)
    from Inr res True have
      "hourly_loop cfg L (shutdown_hours L year (py g)) 100
             (g\<lparr>py := snd (schedule_shutdowns L
                 [instant year 2 15 0, instant year 4 20 0, instant year 7 10 0,
                  instant year 10 5 0] [] (py g))\<rparr>) []
             [instant year 1 1 0..instant year 12 31 23] = Inr (rows, b, g')"
      by (simp add: generate_flare_data_valid)
    from hourly_loop_rows [OF this] assms Inr res show ?thesis
      by (simp add: table_def)
  qed
qed

lemma generate_flare_data_timestamps:
  assumes "1 \<le> year" "year \<le> 9999" "\<forall>c. 0 \<le> std (cfg c)"
  shows "\<exists>rows b g'. generate_flare_data cfg L year g = Inr (rows, b, g')
           \<and> map timestamp rows = [instant year 1 1 0..instant year 12 31 23]"
proof -
  obtain res where
    res: "hourly_loop cfg L (shutdown_hours L year (py g)) 100
             (g\<lparr>py := snd (schedule_shutdowns L
                 [instant year 2 15 0, instant year 4 20 0, instant year 7 10 0,
                  instant year 10 5 0] [] (py g))\<rparr>) []
             [instant year 1 1 0..instant year 12 31 23] = Inr res"
    using hourly_loop_total [OF assms(3)] by blast
  obtain rows b g' where r: "res = (rows, b, g')" by (cases res)
  from hourly_loop_rows [OF res [unfolded r]]
  have "map timestamp rows = [instant year 1 1 0..instant year 12 31 23]" by auto
  with res r assms(1,2) show ?thesis by (simp add: generate_flare_data_valid)
qed

lemma FLARE_CAUSES_std: "\<forall>c. 0 \<le> std (FLARE_CAUSES c)"
proof
  fix c show "0 \<le> std (FLARE_CAUSES c)" by (cases c) (simp_all add: FLARE_CAUSES_def)
qed

lemma year_hours: "nat (instant year 12 31 23 - instant year 1 1 0 + 1) = (if is_leap year then 8784 else 8760)"
  by (simp add: instant_dec31)

lemma last_upto_int: "a \<le> b \<Longrightarrow> last [a..b] = (b::int)"
  by (simp add: upto_rec2)

subsection \<open>One hour\<close>

lemma inject_events_other:
  "inject_events cfg L cs c g = Inr (c', g') \<Longrightarrow> k \<notin> set cs \<Longrightarrow> c' k = c k"
proof (induction cs arbitrary: c g)
  case Nil
  then show ?case by simp
next
  case (Cons a cs)
  obtain u p' where u: "py_random L (py g) = (u, p')" by (cases "py_random L (py g)")
  show ?case
  proof (cases "u < probability (cfg a)")
    case True
    with Cons.prems(1) u obtain rate n' where
      "inject_events cfg L cs (c(a := max 0 rate)) \<lparr>py = p', np = n'\<rparr> = Inr (c', g')"
      by (auto split: sum.splits)
    from Cons.IH [OF this] Cons.prems(2) show ?thesis by simp
  next
    case False
    with Cons.prems(1) u have
      "inject_events cfg L cs c \<lparr>py = p', np = np g\<rparr> = Inr (c', g')"
      by simp
    from Cons.IH [OF this] Cons.prems(2) show ?thesis by simp
  qed
qed

text \<open>The parts of one hour, named.\<close>

lemma hour_contributions_parts:
  assumes "hour_contributions cfg L ev b g dt = Inr (c, b', g')"
  obtains n1 v n2 c3 n3 where
    "update_baseline L b (np g) = Inr (b', n1)"
    "normal_operations_rate cfg L b' n1 dt = Inr (v, n2)"
    "shutdown_contribution cfg L (dt \<in> set ev) ((\<lambda>c. 0)(normal_operations := v)) n2
       = Inr (c3, n3)"
    "other_causes cfg L (dt \<in> set ev) c3 \<lparr>py = py g, np = n3\<rparr> = Inr (c, g')"
  using assms
  by (auto simp: hour_contributions_def Let_def split: sum.splits)

lemma hour_contributions_shutdown:
  assumes "hour_contributions cfg L ev b g dt = Inr (c, b', g')" and "dt \<in> set ev"
  shows "c process_upset = 0 \<and> c equipment_maintenance = 0 \<and> c emergency_relief = 0
         \<and> c compressor_trip = 0 \<and> c instrument_failure = 0"
proof -
  from assms(1) obtain n1 v n2 c3 n3 where
    sc: "shutdown_contribution cfg L (dt \<in> set ev) ((\<lambda>c. 0)(normal_operations := v)) n2
       = Inr (c3, n3)"
    and oc: "other_causes cfg L (dt \<in> set ev) c3 \<lparr>py = py g, np = n3\<rparr> = Inr (c, g')"
    by (rule hour_contributions_parts)
  from oc assms(2) have "c = c3" by (simp add: other_causes_def)
  moreover from sc assms(2) obtain r where
    "c3 = (\<lambda>c. 0)(normal_operations := v, startup_shutdown := r)"
    by (auto simp: shutdown_contribution_def split: sum.splits)
  ultimately show ?thesis by simp
qed

lemma hour_contributions_no_shutdown:
  assumes "hour_contributions cfg L ev b g dt = Inr (c, b', g')" and "dt \<notin> set ev"
  shows "c startup_shutdown = 0"
proof -
  from assms(1) obtain n1 v n2 c3 n3 where
    sc: "shutdown_contribution cfg L (dt \<in> set ev) ((\<lambda>c. 0)(normal_operations := v)) n2
       = Inr (c3, n3)"
    and oc: "other_causes cfg L (dt \<in> set ev) c3 \<lparr>py = py g, np = n3\<rparr> = Inr (c, g')"
    by (rule hour_contributions_parts)
  from sc assms(2) have "c3 = (\<lambda>c. 0)(normal_operations := v)"
    by (simp add: shutdown_contribution_def)
  moreover from oc assms(2) have
    "inject_events cfg L
       [process_upset, equipment_maintenance, emergency_relief, compressor_trip,
        instrument_failure] c3 \<lparr>py = py g, np = n3\<rparr> = Inr (c, g')"
    by (simp add: other_causes_def del: inject_events.simps)
  then have "c startup_shutdown = c3 startup_shutdown"
    by (rule inject_events_other) simp
  ultimately show ?thesis by simp
qed

lemma round2_0: "round2 0 = 0"
  by (simp add: round2_def round_half_even_def)

lemma make_row_exported:
  "make_row dt c = Inr r \<Longrightarrow> exported r k = round2 (c k)"
  by (cases k)
     (auto simp: make_row_def py_max_by_value_def all_causes_def Let_def exported_def
           simp del: max_by_value.simps)

lemma make_row_total_rate:
  "make_row dt c = Inr r \<Longrightarrow>
   total_flare_rate_m3_per_hour r = round2 (sum_list (map c all_causes))"
  by (auto simp: make_row_def py_max_by_value_def Let_def all_causes_def
           simp del: max_by_value.simps)




lemma table_nth_timestamp:
  assumes "1 \<le> year" "year \<le> 9999" "\<forall>c. 0 \<le> std (cfg c)"
    and "i < (if is_leap year then 8784 else 8760)"
  shows "i < length (table (generate_flare_data cfg L year g))
         \<and> timestamp (table (generate_flare_data cfg L year g) ! i) = instant year 1 1 0 + int i"
proof -
  from generate_flare_data_timestamps [OF assms(1-3), of L g]
  obtain rows b g' where
    gen: "generate_flare_data cfg L year g = Inr (rows, b, g')"
    and ts: "map timestamp rows = [instant year 1 1 0..instant year 12 31 23]"
    by blast
  have len: "length rows = (if is_leap year then 8784 else 8760)"
    using arg_cong [OF ts, of length] by (simp add: year_hours)
  with assms(4) have i: "i < length rows" by simp
  then have "timestamp (rows ! i) = map timestamp rows ! i" by simp
  also have "\<dots> = instant year 1 1 0 + int i"
    unfolding ts using assms(4) by (simp add: nth_upto instant_dec31 split: if_splits)
  finally show ?thesis using i gen by (simp add: table_def)
qed

subsection \<open>The rolling baseline\<close>

lemma update_baseline_result:
  "update_baseline L b n = Inr (b', n') \<Longrightarrow>
   b' = clip (b + fst (np_normal L n 0 0.5)) 80 120 \<and> 80 \<le> b' \<and> b' \<le> 120"
  by (auto simp: update_baseline_def normal_def clip_def split: prod.splits)

lemma hour_step_baseline:
  assumes "hour_step cfg L ev b g dt = Inr (row, b', g')"
  shows "b' = clip (b + fst (np_normal L (np g) 0 0.5)) 80 120 \<and> 80 \<le> b' \<and> b' \<le> 120"
proof -
  from assms obtain c where "hour_contributions cfg L ev b g dt = Inr (c, b', g')"
    by (auto simp: hour_step_def split: sum.splits)
  then obtain n1 where "update_baseline L b (np g) = Inr (b', n1)"
    by (rule hour_contributions_parts)
  then show ?thesis by (rule update_baseline_result)
qed

lemma hourly_loop_baseline:
  "hourly_loop cfg L ev b g data dts = Inr (rows, b', g') \<Longrightarrow> 80 \<le> b \<Longrightarrow> b \<le> 120
   \<Longrightarrow> 80 \<le> b' \<and> b' \<le> 120"
proof (induction dts arbitrary: b g data)
  case Nil
  then show ?case by simp
next
  case (Cons dt dts)
  from Cons.prems(1) obtain row b1 g1 where
    step: "hour_step cfg L ev b g dt = Inr (row, b1, g1)"
    and rest: "hourly_loop cfg L ev b1 g1 (data @ [row]) dts = Inr (rows, b', g')"
    by (auto split: sum.splits)
  from hour_step_baseline [OF step] have "80 \<le> b1" "b1 \<le> 120" by simp_all
  with Cons.IH [OF rest] show ?case by simp
qed

lemma hourly_loop_append:
  "hourly_loop cfg L ev b g data (xs @ ys) =
     (case hourly_loop cfg L ev b g data xs of Inl e \<Rightarrow> Inl e
      | Inr (d, b', g') \<Rightarrow> hourly_loop cfg L ev b' g' d ys)"
  by (induction xs arbitrary: b g data) (auto split: sum.splits)

lemma hourly_loop_prefix:
  assumes "hourly_loop cfg L ev b g [] dts = Inr (rows, b', g')"
  shows "\<exists>b_k g_k. hourly_loop cfg L ev b g [] (take k dts) = Inr (take k rows, b_k, g_k)"
proof -
  have "hourly_loop cfg L ev b g [] (take k dts @ drop k dts) = Inr (rows, b', g')"
    using assms by simp
  then obtain d b_k g_k where
    pre: "hourly_loop cfg L ev b g [] (take k dts) = Inr (d, b_k, g_k)"
    and rest: "hourly_loop cfg L ev b_k g_k d (drop k dts) = Inr (rows, b', g')"
    unfolding hourly_loop_append by (auto split: sum.splits)
  from hourly_loop_rows [OF pre] have "map timestamp d = take k dts" by auto
  then have ld: "length d = length (take k dts)" by (metis length_map)
  from hourly_loop_rows [OF assms] have "map timestamp rows = dts" by auto
  then have lr: "length rows = length dts" by (metis length_map)
  from hourly_loop_rows [OF rest] obtain new where "rows = d @ new" by blast
  with ld lr have "take k rows = d" by (cases "k \<le> length dts") auto
  with pre show ?thesis by blast
qed

lemma hour_step_FLARE_CAUSES:
  "\<exists>row g1. hour_step FLARE_CAUSES L ev b g0 dt
       = Inr (row, clip (b + fst (np_normal L (np g0) 0 0.5)) 80 120, g1)"
proof -
  obtain res where "hour_step FLARE_CAUSES L ev b g0 dt = Inr res"
    using hour_step_total [OF FLARE_CAUSES_std] by blast
  then obtain row b' g1 where step: "hour_step FLARE_CAUSES L ev b g0 dt = Inr (row, b', g1)"
    by (cases res) auto
  from hour_step_baseline [OF step] step show ?thesis by auto
qed

subsection \<open>Shutdown windows\<close>





subsection \<open>Rounding to two decimals\<close>


lemma round_half_even_upper: "of_int (round_half_even x) \<le> x + 1 / 2"
  by (simp add: round_half_even_def Let_def) linarith

lemma round_half_even_lower: "x - 1 / 2 \<le> of_int (round_half_even x)"
  by (simp add: round_half_even_def Let_def) linarith




lemma round2_error: "\<bar>round2 x - x\<bar> \<le> 1 / 200"
  unfolding round2_def
  using round_half_even_upper [of "x * 100"] round_half_even_lower [of "x * 100"]
  by linarith




subsection \<open>The first row of a run\<close>

lemma table_first_row:
  assumes "1 \<le> year" "year \<le> 9999" "\<forall>c. 0 \<le> std (cfg c)"
    and hc: "hour_contributions cfg L (shutdown_hours L year (py g)) 100
             (g\<lparr>py := snd (schedule_shutdowns L
                 [instant year 2 15 0, instant year 4 20 0, instant year 7 10 0,
                  instant year 10 5 0] [] (py g))\<rparr>) (instant year 1 1 0) = Inr (c, b, g')"
  shows "make_row (instant year 1 1 0) c
           = Inr (hd (table (generate_flare_data cfg L year g)))"
proof -
  let ?ev = "shutdown_hours L year (py g)"
  let ?g = "g\<lparr>py := snd (schedule_shutdowns L
                 [instant year 2 15 0, instant year 4 20 0, instant year 7 10 0,
                  instant year 10 5 0] [] (py g))\<rparr>"
  obtain row where mr: "make_row (instant year 1 1 0) c = Inr row"
    using make_row_total by blast
  with hc have step: "hour_step cfg L ?ev 100 ?g (instant year 1 1 0) = Inr (row, b, g')"
    by (simp add: hour_step_def)
  have split: "[instant year 1 1 0..instant year 12 31 23]
          = instant year 1 1 0 # [instant year 1 1 0 + 1..instant year 12 31 23]"
    by (rule upto_rec1) (simp add: instant_dec31)
  obtain res where rest: "hourly_loop cfg L ?ev b g' ([] @ [row])
      [instant year 1 1 0 + 1..instant year 12 31 23] = Inr res"
    using hourly_loop_total [OF assms(3)] by blast
  obtain rows b' g'' where res: "res = (rows, b', g'')" by (cases res)
  from hourly_loop_rows [OF rest [unfolded res]] obtain new where "rows = [row] @ new"
    by auto
  moreover have "generate_flare_data cfg L year g = Inr (rows, b', g'')"
    using assms(1,2) step rest res
    by (simp add: generate_flare_data_valid split)
  ultimately have "hd (table (generate_flare_data cfg L year g)) = row"
    by (simp add: table_def)
  with mr show ?thesis by simp
qed

lemma first_hour_outside_scripted:
  "instant 2024 1 1 0 \<notin> set (shutdown_hours (scripted_lib us xs) 2024 p)"
  by (simp add: shutdown_hours_def expand_shutdown_events_valid scripted_lib_def
        shutdown_window_def instant_feb15 instant_apr20 instant_jul10 instant_oct5)

lemma script_first_row:
  assumes "hour_contributions FLARE_CAUSES (scripted_lib us xs)
             (shutdown_hours (scripted_lib us xs) 2024 us) 100 \<lparr>py = us, np = xs\<rparr>
             (instant 2024 1 1 0) = Inr (c, b, g')"
  shows "make_row (instant 2024 1 1 0) c = Inr (hd (table (script (scripted_lib us xs) g)))"
proof -
  have "py (seed_all (scripted_lib us xs) g) = us" "np (seed_all (scripted_lib us xs) g) = xs"
    by (simp_all add: seed_all_def scripted_lib_def)
  then have g: "seed_all (scripted_lib us xs) g = \<lparr>py = us, np = xs\<rparr>"
    by (cases "seed_all (scripted_lib us xs) g") simp
  have p: "snd (schedule_shutdowns (scripted_lib us xs)
                 [instant 2024 2 15 0, instant 2024 4 20 0, instant 2024 7 10 0,
                  instant 2024 10 5 0] [] us) = us"
    by (simp add: scripted_lib_def)
  show ?thesis
    unfolding script_def g
    by (rule table_first_row [where b = b and g' = g'])
       (simp_all add: FLARE_CAUSES_std p assms del: schedule_shutdowns.simps)
qed

subsection \<open>The derived fields, and three concrete first hours\<close>





lemma hour_contributions_exclusive:
  assumes "hour_contributions cfg L ev b g dt = Inr (c, b', g')"
  shows "c startup_shutdown = 0 \<or> c process_upset = 0"
  using hour_contributions_shutdown [OF assms] hour_contributions_no_shutdown [OF assms]
  by blast

lemma round2_upper: "round2 x \<le> x + 1 / 200"
  using round2_error [of x] by linarith

lemma round2_lower: "x - 1 / 200 \<le> round2 x"
  using round2_error [of x] by linarith

lemma abs_cents:
  fixes d :: real and N :: int
  assumes "d * 100 = of_int N" and "\<bar>d\<bar> \<le> 7 / 200"
  shows "\<bar>d\<bar> \<le> 3 / 100"
proof -
  from assms have "\<bar>real_of_int N\<bar> \<le> 7 / 2" by linarith
  then have "\<bar>N\<bar> \<le> 3" by linarith
  then have "\<bar>real_of_int N\<bar> \<le> 3" by linarith
  with assms(1) show ?thesis by linarith
qed

lemma rounded_sum_bound:
  fixes a1 a2 a3 a4 a5 a6 a7 :: real
  assumes "a4 = 0 \<or> a2 = 0"
  shows "\<bar>round2 (a1 + a2 + a3 + a4 + a5 + a6 + a7)
          - (round2 a1 + round2 a2 + round2 a3 + round2 a4 + round2 a5 + round2 a6
             + round2 a7)\<bar> \<le> 3 / 100"
proof -
  let ?t = "a1 + a2 + a3 + a4 + a5 + a6 + a7"
  let ?d = "round2 ?t - (round2 a1 + round2 a2 + round2 a3 + round2 a4 + round2 a5
              + round2 a6 + round2 a7)"
  let ?N = "round_half_even (?t * 100) - (round_half_even (a1 * 100)
      + round_half_even (a2 * 100) + round_half_even (a3 * 100) + round_half_even (a4 * 100)
      + round_half_even (a5 * 100) + round_half_even (a6 * 100) + round_half_even (a7 * 100))"
  have int: "?d * 100 = of_int ?N"
    unfolding round2_def by (simp add: algebra_simps)
  note u = round2_upper [of ?t] round2_upper [of a1] round2_upper [of a2]
    round2_upper [of a3] round2_upper [of a4] round2_upper [of a5] round2_upper [of a6]
    round2_upper [of a7]
  note l = round2_lower [of ?t] round2_lower [of a1] round2_lower [of a2]
    round2_lower [of a3] round2_lower [of a4] round2_lower [of a5] round2_lower [of a6]
    round2_lower [of a7]
  have "?d \<le> 7 / 200 \<and> - (7 / 200) \<le> ?d"
  proof (cases "a4 = 0")
    case True
    then have "round2 a4 = a4" by (simp add: round2_0)
    with u l show ?thesis by linarith
  next
    case False
    with assms have "round2 a2 = a2" by (simp add: round2_0)
    with u l show ?thesis by linarith
  qed
  then have "?d \<le> 7 / 200" and "- ?d \<le> 7 / 200" by linarith+
  then have "\<bar>?d\<bar> \<le> 7 / 200" by (rule abs_leI)
  with int show ?thesis by (rule abs_cents)
qed

lemma script_hd_in_table: "hd (table (script L g)) \<in> set (table (script L g))"
proof -
  have "0 < length (table (generate_flare_data FLARE_CAUSES L 2024 (seed_all L g)))
        \<and> timestamp (table (generate_flare_data FLARE_CAUSES L 2024 (seed_all L g)) ! 0)
            = instant 2024 1 1 0 + int 0"
    by (rule table_nth_timestamp) (simp_all add: FLARE_CAUSES_std is_leap_def)
  then have "table (script L g) \<noteq> []" by (auto simp: script_def)
  then show ?thesis by (rule list.set_sel)
qed

lemmas first_hour_defs = update_baseline_def normal_def clip_def scripted_lib_def
  normal_operations_rate_def FLARE_CAUSES_def shutdown_contribution_def other_causes_def
  dt_hour_def dt_month_def toordinal_def ord2ymd_def calendar_defs

lemmas round2_eval = round2_def round_half_even_def Let_def




lemma aggregation_example:
  "make_row (instant 2024 1 1 0)
     ((\<lambda>c. 0)(normal_operations := 95.0038, process_upset := 50.004,
        equipment_maintenance := 40.004, emergency_relief := 80.004))
   = Inr (hd (table (script (scripted_lib [1/10, 1/20, 1/100]
        [0, 0.004, 50.004, 40.004, 80.004]) \<lparr>py = [], np = []\<rparr>)))"
proof -
  let ?us = "[1/10, 1/20, 1/100] :: real list"
  let ?xs = "[0, 0.004, 50.004, 40.004, 80.004] :: real list"
  let ?c = "(\<lambda>c. 0)(normal_operations := 95.0038, process_upset := 50.004,
        equipment_maintenance := 40.004, emergency_relief := 80.004) :: cause \<Rightarrow> real"
  have "hour_contributions FLARE_CAUSES (scripted_lib ?us ?xs)
          (shutdown_hours (scripted_lib ?us ?xs) 2024 ?us) 100 \<lparr>py = ?us, np = ?xs\<rparr>
          (instant 2024 1 1 0) = Inr (?c, 100, \<lparr>py = [], np = []\<rparr>)"
    unfolding hour_contributions_def Let_def
    by (simp only: first_hour_outside_scripted) (simp add: first_hour_defs)
  from script_first_row [OF this, of "\<lparr>py = [], np = []\<rparr>"] show ?thesis .
qed

lemma aggregation_example_exported:
  "exported (hd (table (script (scripted_lib [1/10, 1/20, 1/100]
        [0, 0.004, 50.004, 40.004, 80.004]) \<lparr>py = [], np = []\<rparr>)))
   = (\<lambda>c. 0)(normal_operations := 95, process_upset := 50, equipment_maintenance := 40,
        emergency_relief := 80)"
proof
  fix k
  show "exported (hd (table (script (scripted_lib [1/10, 1/20, 1/100]
        [0, 0.004, 50.004, 40.004, 80.004]) \<lparr>py = [], np = []\<rparr>))) k
     = ((\<lambda>c. 0)(normal_operations := 95, process_upset := 50, equipment_maintenance := 40,
        emergency_relief := 80)) k"
    unfolding make_row_exported [OF aggregation_example]
    by (cases k) (simp_all add: round2_eval)
qed

lemma aggregation_example_total:
  "total_flare_rate_m3_per_hour (hd (table (script (scripted_lib [1/10, 1/20, 1/100]
        [0, 0.004, 50.004, 40.004, 80.004]) \<lparr>py = [], np = []\<rparr>))) = 265.02"
  unfolding make_row_total_rate [OF aggregation_example]
  by (simp add: all_causes_def round2_eval)

lemma columns_exported:
  "normal_operations_m3_per_hour r + process_upset_m3_per_hour r
     + equipment_maintenance_m3_per_hour r + startup_shutdown_m3_per_hour r
     + emergency_relief_m3_per_hour r + compressor_trip_m3_per_hour r
     + instrument_failure_m3_per_hour r
   = exported r normal_operations + exported r process_upset
     + exported r equipment_maintenance + exported r startup_shutdown
     + exported r emergency_relief + exported r compressor_trip
     + exported r instrument_failure"
  by (simp add: exported_def)

lemma generate_flare_data_accepts:
  assumes "1 \<le> year" "year \<le> 9999" "\<forall>c. 0 \<le> std (cfg c)"
  shows "\<not> isl (generate_flare_data cfg L year g)
         \<and> length (table (generate_flare_data cfg L year g))
             = (if is_leap year then 8784 else 8760)"
proof -
  from generate_flare_data_timestamps [OF assms, of L g]
  obtain rows b g' where
    gen: "generate_flare_data cfg L year g = Inr (rows, b, g')"
    and ts: "map timestamp rows = [instant year 1 1 0..instant year 12 31 23]"
    by blast
  have "length rows = (if is_leap year then 8784 else 8760)"
    using arg_cong [OF ts, of length] by (simp add: year_hours)
  with gen show ?thesis by (simp add: table_def)
qed

lemma negative_normal_std_raises:
  assumes "1 \<le> year" "year \<le> 9999" "std (cfg normal_operations) < 0"
  shows "generate_flare_data cfg L year g = Inl (ValueError ''scale < 0'')"
proof -
  have split: "[instant year 1 1 0..instant year 12 31 23]
          = instant year 1 1 0 # [instant year 1 1 0 + 1..instant year 12 31 23]"
    by (rule upto_rec1) (simp add: instant_dec31)
  have "hour_contributions cfg L ev 100 g1 dt = Inl (ValueError ''scale < 0'')" for ev g1 dt
    using assms(3)
    by (simp add: hour_contributions_def update_baseline_def normal_operations_rate_def
          normal_def Let_def split: prod.splits)
  then have "hour_step cfg L ev 100 g1 dt = Inl (ValueError ''scale < 0'')" for ev g1 dt
    by (simp add: hour_step_def)
  then show ?thesis
    using assms(1,2) by (simp add: generate_flare_data_valid split)
qed

subsection \<open>One more hour of the loop\<close>

lemma hourly_loop_snoc:
  assumes "hourly_loop FLARE_CAUSES L ev b g data dts = Inr (rows, b_k, g_k)"
  shows "\<exists>row g'. hourly_loop FLARE_CAUSES L ev b g data (dts @ [dt])
           = Inr (rows @ [row], clip (b_k + fst (np_normal L (np g_k) 0 0.5)) 80 120, g')"
proof -
  obtain row g' where "hour_step FLARE_CAUSES L ev b_k g_k dt
      = Inr (row, clip (b_k + fst (np_normal L (np g_k) 0 0.5)) 80 120, g')"
    using hour_step_FLARE_CAUSES by blast
  with assms show ?thesis by (simp add: hourly_loop_append)
qed

subsection \<open>Libraries that deliver the same draws\<close>

















subsection \<open>A second call in the same process\<close>












section \<open>The claims\<close>

subsection \<open>C1: one record per hour of the year\<close>

text \<open>
  C1.  For every calendar year that \<open>datetime\<close> accepts (1 to 9999),
  \<open>generate_flare_data\<close> returns a table, and the table has one record per hour of the
  year: 8784 records in a leap year and 8760 otherwise, with timestamps that are the hourly
  sequence from January 1st, 00:00 to December 31st, 23:00, strictly increasing and
  without duplicates.
\<close>

theorem generate_flare_data_complete:
  assumes "1 \<le> year" "year \<le> 9999"
  shows "\<exists>rows b g'. generate_flare_data FLARE_CAUSES L year g = Inr (rows, b, g')
           \<and> length rows = (if is_leap year then 8784 else 8760)
           \<and> map timestamp rows = map (\<lambda>k. instant year 1 1 0 + int k) [0..<length rows]
           \<and> timestamp (hd rows) = instant year 1 1 0
           \<and> timestamp (last rows) = instant year 12 31 23
           \<and> sorted_wrt (<) (map timestamp rows)
           \<and> distinct (map timestamp rows)"
proof -
  from generate_flare_data_timestamps [OF assms FLARE_CAUSES_std, of L g]
  obtain rows b g' where
    gen: "generate_flare_data FLARE_CAUSES L year g = Inr (rows, b, g')"
    and ts: "map timestamp rows = [instant year 1 1 0..instant year 12 31 23]"
    by blast
  have len: "length rows = (if is_leap year then 8784 else 8760)"
    using arg_cong [OF ts, of length] by (simp add: year_hours)
  then have ne: "rows \<noteq> []" by (auto split: if_splits)
  have seq: "map timestamp rows = map (\<lambda>k. instant year 1 1 0 + int k) [0..<length rows]"
    using ts len by (simp add: upto_as_map year_hours)
  have "[instant year 1 1 0..instant year 12 31 23]
          = instant year 1 1 0 # [instant year 1 1 0 + 1..instant year 12 31 23]"
    by (rule upto_rec1) (simp add: instant_dec31)
  then have "hd (map timestamp rows) = instant year 1 1 0"
    unfolding ts by simp
  then have first: "timestamp (hd rows) = instant year 1 1 0"
    using ne by (simp add: hd_map)
  have "timestamp (last rows) = last (map timestamp rows)"
    using ne by (simp add: last_map)
  also have "\<dots> = instant year 12 31 23"
    unfolding ts by (rule last_upto_int) (simp add: instant_dec31)
  finally have lst: "timestamp (last rows) = instant year 12 31 23" .
  have "sorted_wrt (<) (map timestamp rows)" "distinct (map timestamp rows)"
    unfolding ts by (rule sorted_wrt_upto, rule distinct_upto)
  with gen len seq first lst show ?thesis by (intro exI conjI)
qed

theorem generate_flare_data_complete_witness:
  "(1::int) \<le> 2024 \<and> (2024::int) \<le> 9999
   \<and> length (table (generate_flare_data FLARE_CAUSES (scripted_lib [] []) 2024
                  \<lparr>py = [], np = []\<rparr>)) = 8784
   \<and> (1::int) \<le> 2023 \<and> (2023::int) \<le> 9999
   \<and> length (table (generate_flare_data FLARE_CAUSES (scripted_lib [] []) 2023
                  \<lparr>py = [], np = []\<rparr>)) = 8760"
  using generate_flare_data_complete [of 2024 "scripted_lib [] []" "\<lparr>py = [], np = []\<rparr>"]
    generate_flare_data_complete [of 2023 "scripted_lib [] []" "\<lparr>py = [], np = []\<rparr>"]
  by (auto simp: table_def is_leap_def)

subsection \<open>C2: no probabilistic cause during a shutdown\<close>

text \<open>
  C2.  For every record of the table whose timestamp lies in an expanded shutdown window,
  the contributions of process upset, equipment maintenance, emergency relief, compressor
  trip and instrument failure are exactly 0, in the record's contributions and in the
  exported columns.
\<close>

theorem shutdown_exclusivity:
  assumes "r \<in> set (table (generate_flare_data FLARE_CAUSES L year g))"
    and "timestamp r \<in> set (shutdown_hours L year (py g))"
  shows "process_upset_m3_per_hour r = 0 \<and> equipment_maintenance_m3_per_hour r = 0
         \<and> emergency_relief_m3_per_hour r = 0 \<and> compressor_trip_m3_per_hour r = 0
         \<and> instrument_failure_m3_per_hour r = 0
         \<and> (\<exists>c. make_row (timestamp r) c = Inr r
                \<and> c process_upset = 0 \<and> c equipment_maintenance = 0
                \<and> c emergency_relief = 0 \<and> c compressor_trip = 0
                \<and> c instrument_failure = 0)"
proof -
  from table_rows [OF assms(1)] obtain b0 g0 c b1 g1 where
    hc: "hour_contributions FLARE_CAUSES L (shutdown_hours L year (py g)) b0 g0 (timestamp r)
           = Inr (c, b1, g1)"
    and mr: "make_row (timestamp r) c = Inr r"
    by blast
  note z = hour_contributions_shutdown [OF hc assms(2)]
  have "exported r process_upset = 0" "exported r equipment_maintenance = 0"
    "exported r emergency_relief = 0" "exported r compressor_trip = 0"
    "exported r instrument_failure = 0"
    using z by (simp_all add: make_row_exported [OF mr] round2_0)
  then have "process_upset_m3_per_hour r = 0 \<and> equipment_maintenance_m3_per_hour r = 0
         \<and> emergency_relief_m3_per_hour r = 0 \<and> compressor_trip_m3_per_hour r = 0
         \<and> instrument_failure_m3_per_hour r = 0"
    by (simp add: exported_def)
  moreover have "\<exists>c. make_row (timestamp r) c = Inr r
                \<and> c process_upset = 0 \<and> c equipment_maintenance = 0
                \<and> c emergency_relief = 0 \<and> c compressor_trip = 0
                \<and> c instrument_failure = 0"
    using mr z by blast
  ultimately show ?thesis by simp
qed

theorem shutdown_exclusivity_witness:
  "table (generate_flare_data FLARE_CAUSES (scripted_lib [] []) 2024 \<lparr>py = [], np = []\<rparr>) ! 1080
     \<in> set (table (generate_flare_data FLARE_CAUSES (scripted_lib [] []) 2024
                 \<lparr>py = [], np = []\<rparr>))
   \<and> timestamp (table (generate_flare_data FLARE_CAUSES (scripted_lib [] []) 2024
                 \<lparr>py = [], np = []\<rparr>) ! 1080)
        \<in> set (shutdown_hours (scripted_lib [] []) 2024 [])
   \<and> process_upset_m3_per_hour
        (table (generate_flare_data FLARE_CAUSES (scripted_lib [] []) 2024
                 \<lparr>py = [], np = []\<rparr>) ! 1080) = 0
   \<and> equipment_maintenance_m3_per_hour
        (table (generate_flare_data FLARE_CAUSES (scripted_lib [] []) 2024
                 \<lparr>py = [], np = []\<rparr>) ! 1080) = 0
   \<and> emergency_relief_m3_per_hour
        (table (generate_flare_data FLARE_CAUSES (scripted_lib [] []) 2024
                 \<lparr>py = [], np = []\<rparr>) ! 1080) = 0
   \<and> compressor_trip_m3_per_hour
        (table (generate_flare_data FLARE_CAUSES (scripted_lib [] []) 2024
                 \<lparr>py = [], np = []\<rparr>) ! 1080) = 0
   \<and> instrument_failure_m3_per_hour
        (table (generate_flare_data FLARE_CAUSES (scripted_lib [] []) 2024
                 \<lparr>py = [], np = []\<rparr>) ! 1080) = 0"
proof -
  let ?T = "table (generate_flare_data FLARE_CAUSES (scripted_lib [] []) 2024
                 \<lparr>py = [], np = []\<rparr>)"
  have n: "1080 < length ?T \<and> timestamp (?T ! 1080) = instant 2024 1 1 0 + int 1080"
    by (rule table_nth_timestamp) (simp_all add: FLARE_CAUSES_std is_leap_def)
  then have a: "?T ! 1080 \<in> set ?T" by simp
  have b: "timestamp (?T ! 1080) \<in> set (shutdown_hours (scripted_lib [] []) 2024 [])"
    using n
    by (simp add: shutdown_hours_def expand_shutdown_events_valid scripted_lib_def
          shutdown_window_def instant_feb15)
  from shutdown_exclusivity [OF a] b a show ?thesis by simp
qed

subsection \<open>C3: the scheduled cause only during a shutdown\<close>

text \<open>
  C3.  For every record of the table, the startup/shutdown contribution is strictly
  positive only if the record's timestamp lies in an expanded shutdown window, and it is
  exactly 0, in the record's contributions and in the exported column, for every hour
  outside all windows.
\<close>

theorem startup_shutdown_exclusivity:
  assumes "r \<in> set (table (generate_flare_data FLARE_CAUSES L year g))"
  shows "(0 < startup_shutdown_m3_per_hour r
            \<longrightarrow> timestamp r \<in> set (shutdown_hours L year (py g)))
         \<and> (timestamp r \<notin> set (shutdown_hours L year (py g))
            \<longrightarrow> startup_shutdown_m3_per_hour r = 0
                \<and> (\<exists>c. make_row (timestamp r) c = Inr r \<and> c startup_shutdown = 0))"
proof -
  from table_rows [OF assms] obtain b0 g0 c b1 g1 where
    hc: "hour_contributions FLARE_CAUSES L (shutdown_hours L year (py g)) b0 g0 (timestamp r)
           = Inr (c, b1, g1)"
    and mr: "make_row (timestamp r) c = Inr r"
    by blast
  have out: "startup_shutdown_m3_per_hour r = 0 \<and> c startup_shutdown = 0"
    if "timestamp r \<notin> set (shutdown_hours L year (py g))"
  proof -
    have z: "c startup_shutdown = 0"
      using hc that by (rule hour_contributions_no_shutdown)
    have "exported r startup_shutdown = 0"
      by (simp add: make_row_exported [OF mr] z round2_0)
    with z show ?thesis by (simp add: exported_def)
  qed
  show ?thesis
  proof (cases "timestamp r \<in> set (shutdown_hours L year (py g))")
    case True
    then show ?thesis by simp
  next
    case False
    from out [OF False] have "startup_shutdown_m3_per_hour r = 0"
      and "\<exists>c. make_row (timestamp r) c = Inr r \<and> c startup_shutdown = 0"
      using mr by auto
    with False show ?thesis by simp
  qed
qed

theorem startup_shutdown_exclusivity_witness:
  "table (generate_flare_data FLARE_CAUSES (scripted_lib [] []) 2024 \<lparr>py = [], np = []\<rparr>) ! 0
     \<in> set (table (generate_flare_data FLARE_CAUSES (scripted_lib [] []) 2024
                 \<lparr>py = [], np = []\<rparr>))
   \<and> timestamp (table (generate_flare_data FLARE_CAUSES (scripted_lib [] []) 2024
                 \<lparr>py = [], np = []\<rparr>) ! 0)
        \<notin> set (shutdown_hours (scripted_lib [] []) 2024 [])
   \<and> startup_shutdown_m3_per_hour
        (table (generate_flare_data FLARE_CAUSES (scripted_lib [] []) 2024
                 \<lparr>py = [], np = []\<rparr>) ! 0) = 0"
proof -
  let ?T = "table (generate_flare_data FLARE_CAUSES (scripted_lib [] []) 2024
                 \<lparr>py = [], np = []\<rparr>)"
  have n: "0 < length ?T \<and> timestamp (?T ! 0) = instant 2024 1 1 0 + int 0"
    by (rule table_nth_timestamp) (simp_all add: FLARE_CAUSES_std is_leap_def)
  then have a: "?T ! 0 \<in> set ?T" by simp
  have b: "timestamp (?T ! 0) \<notin> set (shutdown_hours (scripted_lib [] []) 2024 [])"
    using n
    by (simp add: shutdown_hours_def expand_shutdown_events_valid scripted_lib_def
          shutdown_window_def instant_feb15 instant_apr20 instant_jul10 instant_oct5)
  from startup_shutdown_exclusivity [OF a] b a show ?thesis by simp
qed

subsection \<open>C4: severity thresholds\<close>




subsection \<open>C5: the dominant cause\<close>




subsection \<open>C6: the total against the sum of the columns\<close>

text \<open>
  C6 as stated bounds the difference between the exported total and the sum of the seven
  exported columns by 0.01, and fails: the total and each column are rounded separately.
  With the contributions 95.0038, 50.004, 40.004 and 80.004 the exported total is 265.02 and
  the exported columns add up to 265.00.
\<close>

theorem aggregation_tolerance_counterexample:
  "total_flare_rate_m3_per_hour (hd (table (script (scripted_lib [1/10, 1/20, 1/100]
        [0, 0.004, 50.004, 40.004, 80.004]) \<lparr>py = [], np = []\<rparr>))) = 265.02
   \<and> normal_operations_m3_per_hour (hd (table (script (scripted_lib [1/10, 1/20, 1/100]
        [0, 0.004, 50.004, 40.004, 80.004]) \<lparr>py = [], np = []\<rparr>)))
     + process_upset_m3_per_hour (hd (table (script (scripted_lib [1/10, 1/20, 1/100]
        [0, 0.004, 50.004, 40.004, 80.004]) \<lparr>py = [], np = []\<rparr>)))
     + equipment_maintenance_m3_per_hour (hd (table (script (scripted_lib [1/10, 1/20, 1/100]
        [0, 0.004, 50.004, 40.004, 80.004]) \<lparr>py = [], np = []\<rparr>)))
     + startup_shutdown_m3_per_hour (hd (table (script (scripted_lib [1/10, 1/20, 1/100]
        [0, 0.004, 50.004, 40.004, 80.004]) \<lparr>py = [], np = []\<rparr>)))
     + emergency_relief_m3_per_hour (hd (table (script (scripted_lib [1/10, 1/20, 1/100]
        [0, 0.004, 50.004, 40.004, 80.004]) \<lparr>py = [], np = []\<rparr>)))
     + compressor_trip_m3_per_hour (hd (table (script (scripted_lib [1/10, 1/20, 1/100]
        [0, 0.004, 50.004, 40.004, 80.004]) \<lparr>py = [], np = []\<rparr>)))
     + instrument_failure_m3_per_hour (hd (table (script (scripted_lib [1/10, 1/20, 1/100]
        [0, 0.004, 50.004, 40.004, 80.004]) \<lparr>py = [], np = []\<rparr>))) = 265
   \<and> \<not> \<bar>total_flare_rate_m3_per_hour (hd (table (script (scripted_lib [1/10, 1/20, 1/100]
        [0, 0.004, 50.004, 40.004, 80.004]) \<lparr>py = [], np = []\<rparr>)))
         - (normal_operations_m3_per_hour (hd (table (script (scripted_lib [1/10, 1/20, 1/100]
        [0, 0.004, 50.004, 40.004, 80.004]) \<lparr>py = [], np = []\<rparr>)))
     + process_upset_m3_per_hour (hd (table (script (scripted_lib [1/10, 1/20, 1/100]
        [0, 0.004, 50.004, 40.004, 80.004]) \<lparr>py = [], np = []\<rparr>)))
     + equipment_maintenance_m3_per_hour (hd (table (script (scripted_lib [1/10, 1/20, 1/100]
        [0, 0.004, 50.004, 40.004, 80.004]) \<lparr>py = [], np = []\<rparr>)))
     + startup_shutdown_m3_per_hour (hd (table (script (scripted_lib [1/10, 1/20, 1/100]
        [0, 0.004, 50.004, 40.004, 80.004]) \<lparr>py = [], np = []\<rparr>)))
     + emergency_relief_m3_per_hour (hd (table (script (scripted_lib [1/10, 1/20, 1/100]
        [0, 0.004, 50.004, 40.004, 80.004]) \<lparr>py = [], np = []\<rparr>)))
     + compressor_trip_m3_per_hour (hd (table (script (scripted_lib [1/10, 1/20, 1/100]
        [0, 0.004, 50.004, 40.004, 80.004]) \<lparr>py = [], np = []\<rparr>)))
     + instrument_failure_m3_per_hour (hd (table (script (scripted_lib [1/10, 1/20, 1/100]
        [0, 0.004, 50.004, 40.004, 80.004]) \<lparr>py = [], np = []\<rparr>))))\<bar> \<le> 0.01"
  unfolding columns_exported aggregation_example_exported aggregation_example_total
  by simp

text \<open>
  C6, amended.  For every record of the table the exported total is the rounding of the
  exact sum of the in-record contributions, every exported column is the rounding of its
  contribution, and the exported total differs from the sum of the seven exported columns
  by at most 0.03.
\<close>

theorem aggregation_identity:
  assumes "r \<in> set (table (generate_flare_data FLARE_CAUSES L year g))"
  shows "\<exists>c. make_row (timestamp r) c = Inr r
           \<and> total_flare_rate_m3_per_hour r = round2 (sum_list (map c all_causes))
           \<and> (\<forall>k. exported r k = round2 (c k))
           \<and> \<bar>total_flare_rate_m3_per_hour r
                - (normal_operations_m3_per_hour r + process_upset_m3_per_hour r
                   + equipment_maintenance_m3_per_hour r + startup_shutdown_m3_per_hour r
                   + emergency_relief_m3_per_hour r + compressor_trip_m3_per_hour r
                   + instrument_failure_m3_per_hour r)\<bar> \<le> 3 / 100"
proof -
  from table_rows [OF assms] obtain b0 g0 c b1 g1 where
    hc: "hour_contributions FLARE_CAUSES L (shutdown_hours L year (py g)) b0 g0 (timestamp r)
           = Inr (c, b1, g1)"
    and mr: "make_row (timestamp r) c = Inr r"
    by blast
  have tot: "total_flare_rate_m3_per_hour r = round2 (sum_list (map c all_causes))"
    using mr by (rule make_row_total_rate)
  have ex: "\<forall>k. exported r k = round2 (c k)"
    using make_row_exported [OF mr] by simp
  have "c startup_shutdown = 0 \<or> c process_upset = 0"
    using hc by (rule hour_contributions_exclusive)
  from rounded_sum_bound [OF this, of "c normal_operations" "c equipment_maintenance"
      "c emergency_relief" "c compressor_trip" "c instrument_failure"]
  have "\<bar>total_flare_rate_m3_per_hour r
                - (normal_operations_m3_per_hour r + process_upset_m3_per_hour r
                   + equipment_maintenance_m3_per_hour r + startup_shutdown_m3_per_hour r
                   + emergency_relief_m3_per_hour r + compressor_trip_m3_per_hour r
                   + instrument_failure_m3_per_hour r)\<bar> \<le> 3 / 100"
    unfolding columns_exported tot by (simp add: ex all_causes_def add.assoc)
  with mr tot ex show ?thesis by (intro exI [of _ c] conjI)
qed

theorem aggregation_identity_witness:
  "hd (table (script (scripted_lib [1/10, 1/20, 1/100]
        [0, 0.004, 50.004, 40.004, 80.004]) \<lparr>py = [], np = []\<rparr>))
     \<in> set (table (generate_flare_data FLARE_CAUSES
          (scripted_lib [1/10, 1/20, 1/100] [0, 0.004, 50.004, 40.004, 80.004]) 2024
          \<lparr>py = [1/10, 1/20, 1/100], np = [0, 0.004, 50.004, 40.004, 80.004]\<rparr>))
   \<and> \<bar>total_flare_rate_m3_per_hour (hd (table (script (scripted_lib [1/10, 1/20, 1/100]
        [0, 0.004, 50.004, 40.004, 80.004]) \<lparr>py = [], np = []\<rparr>)))
         - (normal_operations_m3_per_hour (hd (table (script (scripted_lib [1/10, 1/20, 1/100]
        [0, 0.004, 50.004, 40.004, 80.004]) \<lparr>py = [], np = []\<rparr>)))
     + process_upset_m3_per_hour (hd (table (script (scripted_lib [1/10, 1/20, 1/100]
        [0, 0.004, 50.004, 40.004, 80.004]) \<lparr>py = [], np = []\<rparr>)))
     + equipment_maintenance_m3_per_hour (hd (table (script (scripted_lib [1/10, 1/20, 1/100]
        [0, 0.004, 50.004, 40.004, 80.004]) \<lparr>py = [], np = []\<rparr>)))
     + startup_shutdown_m3_per_hour (hd (table (script (scripted_lib [1/10, 1/20, 1/100]
        [0, 0.004, 50.004, 40.004, 80.004]) \<lparr>py = [], np = []\<rparr>)))
     + emergency_relief_m3_per_hour (hd (table (script (scripted_lib [1/10, 1/20, 1/100]
        [0, 0.004, 50.004, 40.004, 80.004]) \<lparr>py = [], np = []\<rparr>)))
     + compressor_trip_m3_per_hour (hd (table (script (scripted_lib [1/10, 1/20, 1/100]
        [0, 0.004, 50.004, 40.004, 80.004]) \<lparr>py = [], np = []\<rparr>)))
     + instrument_failure_m3_per_hour (hd (table (script (scripted_lib [1/10, 1/20, 1/100]
        [0, 0.004, 50.004, 40.004, 80.004]) \<lparr>py = [], np = []\<rparr>))))\<bar> \<le> 3 / 100"
proof -
  let ?L = "scripted_lib [1/10, 1/20, 1/100] [0, 0.004, 50.004, 40.004, 80.004]"
  let ?g = "\<lparr>py = [1/10, 1/20, 1/100], np = [0, 0.004, 50.004, 40.004, 80.004]\<rparr>
              :: (real list, real list) rng"
  let ?r = "hd (table (script ?L \<lparr>py = [], np = []\<rparr>))"
  have s: "script ?L \<lparr>py = [], np = []\<rparr> = generate_flare_data FLARE_CAUSES ?L 2024 ?g"
    by (simp add: script_def seed_all_def scripted_lib_def)
  have a: "?r \<in> set (table (generate_flare_data FLARE_CAUSES ?L 2024 ?g))"
    using script_hd_in_table [of ?L "\<lparr>py = [], np = []\<rparr>"] unfolding s .
  from aggregation_identity [OF a] have
    "\<bar>total_flare_rate_m3_per_hour ?r
       - (normal_operations_m3_per_hour ?r + process_upset_m3_per_hour ?r
          + equipment_maintenance_m3_per_hour ?r + startup_shutdown_m3_per_hour ?r
          + emergency_relief_m3_per_hour ?r + compressor_trip_m3_per_hour ?r
          + instrument_failure_m3_per_hour ?r)\<bar> \<le> 3 / 100"
    by (elim exE conjE)
  with a show ?thesis by (intro conjI)
qed

subsection \<open>C7: the rolling baseline stays in its band\<close>

text \<open>
  C7.  The rolling baseline starts at 100 and is carried from hour to hour.  For every
  number \<open>k\<close> of hours, the loop started with baseline 100 on the first \<open>k\<close> hours of
  the year returns the first \<open>k\<close> rows of the generated table together with a baseline
  \<open>b\<^sub>k\<close> in [80, 120] and the states \<open>g\<^sub>k\<close> of the sources; \<open>b\<^sub>0\<close> is 100, and as
  long as an hour is left, the loop on the first \<open>k + 1\<close> hours returns the baseline
  \<open>clip(b\<^sub>k + Gaussian(0, 0.5), 80, 120)\<close>, where the Gaussian is the next draw of the
  source in state \<open>g\<^sub>k\<close>, made before any other noise of that hour.
\<close>

theorem baseline_bounds:
  assumes "1 \<le> year" "year \<le> 9999"
  shows "(\<exists>b_k g_k.
           hourly_loop FLARE_CAUSES L (shutdown_hours L year (py g)) 100
             (g\<lparr>py := snd (schedule_shutdowns L
                 [instant year 2 15 0, instant year 4 20 0, instant year 7 10 0,
                  instant year 10 5 0] [] (py g))\<rparr>) []
             (take k (date_range (instant year 1 1 0) (instant year 12 31 23)))
           = Inr (take k (table (generate_flare_data FLARE_CAUSES L year g)), b_k, g_k)
           \<and> 80 \<le> b_k \<and> b_k \<le> 120
           \<and> (k = 0 \<longrightarrow> b_k = 100)
           \<and> (k < (if is_leap year then 8784 else 8760) \<longrightarrow>
                (\<exists>g'. hourly_loop FLARE_CAUSES L (shutdown_hours L year (py g)) 100
                   (g\<lparr>py := snd (schedule_shutdowns L
                       [instant year 2 15 0, instant year 4 20 0, instant year 7 10 0,
                        instant year 10 5 0] [] (py g))\<rparr>) []
                   (take (Suc k) (date_range (instant year 1 1 0) (instant year 12 31 23)))
                 = Inr (take (Suc k) (table (generate_flare_data FLARE_CAUSES L year g)),
                        clip (b_k + fst (np_normal L (np g_k) 0 0.5)) 80 120, g'))))
         \<and> (\<exists>row g1. hour_step FLARE_CAUSES L ev b g0 dt
                = Inr (row, clip (b + fst (np_normal L (np g0) 0 0.5)) 80 120, g1))"
proof -
  let ?ev = "shutdown_hours L year (py g)"
  let ?g = "g\<lparr>py := snd (schedule_shutdowns L
                 [instant year 2 15 0, instant year 4 20 0, instant year 7 10 0,
                  instant year 10 5 0] [] (py g))\<rparr>"
  let ?hours = "date_range (instant year 1 1 0) (instant year 12 31 23)"
  from generate_flare_data_timestamps [OF assms FLARE_CAUSES_std, of L g]
  obtain rows b_end g_end where
    gen: "generate_flare_data FLARE_CAUSES L year g = Inr (rows, b_end, g_end)"
    by blast
  then have loop: "hourly_loop FLARE_CAUSES L ?ev 100 ?g [] ?hours = Inr (rows, b_end, g_end)"
    using assms by (simp add: generate_flare_data_valid date_range_upto)
  have T: "table (generate_flare_data FLARE_CAUSES L year g) = rows"
    using gen by (simp add: table_def)
  have len: "length ?hours = (if is_leap year then 8784 else 8760)"
    by (simp add: date_range_upto year_hours)
  from hourly_loop_prefix [OF loop, of k] obtain b_k g_k where
    pre: "hourly_loop FLARE_CAUSES L ?ev 100 ?g [] (take k ?hours) = Inr (take k rows, b_k, g_k)"
    by blast
  from hourly_loop_baseline [OF pre] have bnd: "80 \<le> b_k \<and> b_k \<le> 120" by simp
  have start: "b_k = 100" if "k = 0"
    using pre that by simp
  have link: "\<exists>g'. hourly_loop FLARE_CAUSES L ?ev 100 ?g [] (take (Suc k) ?hours)
      = Inr (take (Suc k) rows, clip (b_k + fst (np_normal L (np g_k) 0 0.5)) 80 120, g')"
    if "k < (if is_leap year then 8784 else 8760)"
  proof -
    from that len have "k < length ?hours" by simp
    then have tk: "take (Suc k) ?hours = take k ?hours @ [?hours ! k]"
      by (rule take_Suc_conv_app_nth)
    from hourly_loop_snoc [OF pre, of "?hours ! k"] obtain row g' where
      nxt: "hourly_loop FLARE_CAUSES L ?ev 100 ?g [] (take (Suc k) ?hours)
          = Inr (take k rows @ [row], clip (b_k + fst (np_normal L (np g_k) 0 0.5)) 80 120, g')"
      unfolding tk by blast
    from hourly_loop_prefix [OF loop, of "Suc k"] obtain b' g'' where
      "hourly_loop FLARE_CAUSES L ?ev 100 ?g [] (take (Suc k) ?hours)
          = Inr (take (Suc k) rows, b', g'')"
      by blast
    with nxt have "take k rows @ [row] = take (Suc k) rows" by simp
    with nxt show ?thesis by auto
  qed
  have start': "k = 0 \<longrightarrow> b_k = 100" using start by (rule impI)
  have link': "k < (if is_leap year then 8784 else 8760) \<longrightarrow>
      (\<exists>g'. hourly_loop FLARE_CAUSES L ?ev 100 ?g [] (take (Suc k) ?hours)
         = Inr (take (Suc k) rows, clip (b_k + fst (np_normal L (np g_k) 0 0.5)) 80 120, g'))"
    using link by (rule impI)
  have body: "hourly_loop FLARE_CAUSES L ?ev 100 ?g [] (take k ?hours)
           = Inr (take k (table (generate_flare_data FLARE_CAUSES L year g)), b_k, g_k)
           \<and> 80 \<le> b_k \<and> b_k \<le> 120
           \<and> (k = 0 \<longrightarrow> b_k = 100)
           \<and> (k < (if is_leap year then 8784 else 8760) \<longrightarrow>
                (\<exists>g'. hourly_loop FLARE_CAUSES L ?ev 100 ?g [] (take (Suc k) ?hours)
                 = Inr (take (Suc k) (table (generate_flare_data FLARE_CAUSES L year g)),
                        clip (b_k + fst (np_normal L (np g_k) 0 0.5)) 80 120, g')))"
    unfolding T using pre bnd start' link' by (intro conjI) simp_all
  have A: "\<exists>b_k g_k.
           hourly_loop FLARE_CAUSES L ?ev 100 ?g [] (take k ?hours)
           = Inr (take k (table (generate_flare_data FLARE_CAUSES L year g)), b_k, g_k)
           \<and> 80 \<le> b_k \<and> b_k \<le> 120
           \<and> (k = 0 \<longrightarrow> b_k = 100)
           \<and> (k < (if is_leap year then 8784 else 8760) \<longrightarrow>
                (\<exists>g'. hourly_loop FLARE_CAUSES L ?ev 100 ?g [] (take (Suc k) ?hours)
                 = Inr (take (Suc k) (table (generate_flare_data FLARE_CAUSES L year g)),
                        clip (b_k + fst (np_normal L (np g_k) 0 0.5)) 80 120, g')))"
    by (rule exI [of _ b_k], rule exI [of _ g_k]) (rule body)
  show ?thesis using A hour_step_FLARE_CAUSES [of L ev b g0 dt] by (intro conjI)
qed

theorem baseline_bounds_witness:
  "(1::int) \<le> 2024 \<and> (2024::int) \<le> 9999 \<and> (0::nat) < 8784
   \<and> (\<exists>g'. hourly_loop FLARE_CAUSES (scripted_lib [] [1/2])
             (shutdown_hours (scripted_lib [] [1/2]) 2024 []) 100 \<lparr>py = [], np = [1/2]\<rparr> []
             (take (Suc 0) (date_range (instant 2024 1 1 0) (instant 2024 12 31 23)))
           = Inr (take (Suc 0) (table (generate_flare_data FLARE_CAUSES (scripted_lib [] [1/2])
                     2024 \<lparr>py = [], np = [1/2]\<rparr>)), 201 / 2, g'))"
proof -
  let ?L = "scripted_lib [] [1/2]"
  let ?g = "\<lparr>py = [], np = [1/2]\<rparr> :: (real list, real list) rng"
  have g: "?g\<lparr>py := snd (schedule_shutdowns ?L
                 [instant 2024 2 15 0, instant 2024 4 20 0, instant 2024 7 10 0,
                  instant 2024 10 5 0] [] (py ?g))\<rparr> = ?g"
    by (simp add: scripted_lib_def)
  from baseline_bounds [of 2024 ?L ?g 0] obtain b_k g_k where
    z: "hourly_loop FLARE_CAUSES ?L (shutdown_hours ?L 2024 []) 100 ?g []
          (take 0 (date_range (instant 2024 1 1 0) (instant 2024 12 31 23)))
        = Inr (take 0 (table (generate_flare_data FLARE_CAUSES ?L 2024 ?g)), b_k, g_k)"
    and n: "\<exists>g'. hourly_loop FLARE_CAUSES ?L (shutdown_hours ?L 2024 []) 100 ?g []
             (take (Suc 0) (date_range (instant 2024 1 1 0) (instant 2024 12 31 23)))
           = Inr (take (Suc 0) (table (generate_flare_data FLARE_CAUSES ?L 2024 ?g)),
                  clip (b_k + fst (np_normal ?L (np g_k) 0 0.5)) 80 120, g')"
    unfolding g by (auto simp: is_leap_def)
  from z have "b_k = 100" "g_k = ?g" by simp_all
  then have e: "clip (b_k + fst (np_normal ?L (np g_k) 0 0.5)) 80 120 = 201 / 2"
    by (simp add: scripted_lib_def clip_def)
  have "(1::int) \<le> 2024 \<and> (2024::int) \<le> 9999 \<and> (0::nat) < 8784" by simp
  with n [unfolded e] show ?thesis by (intro conjI) simp_all
qed

subsection \<open>C8: reproducible runs\<close>




subsection \<open>C9: the configuration is not validated\<close>

text \<open>
  C9 as stated has an invalid configuration rejected before the hourly loop, and fails:
  the program has no validation step.  With the hourly probability 1.5 for process upset
  the run returns all 8784 rows of 2024.
\<close>

theorem configuration_not_validated_counterexample:
  "well_shaped (FLARE_CAUSES(process_upset := Event 50 15 1.5))
   \<and> probability ((FLARE_CAUSES(process_upset := Event 50 15 1.5)) process_upset) = 1.5
   \<and> \<not> isl (generate_flare_data (FLARE_CAUSES(process_upset := Event 50 15 1.5))
              (scripted_lib [] []) 2024 \<lparr>py = [], np = []\<rparr>)
   \<and> length (table (generate_flare_data (FLARE_CAUSES(process_upset := Event 50 15 1.5))
              (scripted_lib [] []) 2024 \<lparr>py = [], np = []\<rparr>)) = 8784"
proof -
  have "\<forall>c. 0 \<le> std ((FLARE_CAUSES(process_upset := Event 50 15 1.5)) c)"
    using FLARE_CAUSES_std by simp
  with generate_flare_data_accepts [of 2024 "FLARE_CAUSES(process_upset := Event 50 15 1.5)"
      "scripted_lib [] []" "\<lparr>py = [], np = []\<rparr>"]
  show ?thesis by (simp add: is_leap_def well_shaped_def FLARE_CAUSES_def)
qed

text \<open>
  C9, amended.  \<open>generate_flare_data\<close> validates nothing before the hourly loop.  For a
  valid year, a configuration of the shape of \<open>FLARE_CAUSES\<close> whose standard deviations
  are non-negative is accepted whatever its hourly probabilities are, also outside
  [0, 1], and the run returns the full table; a negative standard deviation of normal
  operations is only met by the \<open>ValueError\<close> of the Gaussian source at the first draw
  that uses it.  The built-in \<open>FLARE_CAUSES\<close> has that shape and non-negative standard
  deviations.
\<close>

theorem configuration_not_validated:
  assumes "1 \<le> year" "year \<le> 9999" "well_shaped cfg"
  shows "((\<forall>c. 0 \<le> std (cfg c)) \<longrightarrow>
            \<not> isl (generate_flare_data cfg L year g)
            \<and> length (table (generate_flare_data cfg L year g))
                = (if is_leap year then 8784 else 8760))
         \<and> (std (cfg normal_operations) < 0 \<longrightarrow>
              generate_flare_data cfg L year g = Inl (ValueError ''scale < 0''))
         \<and> well_shaped FLARE_CAUSES \<and> (\<forall>c. 0 \<le> std (FLARE_CAUSES c))"
proof -
  have "well_shaped FLARE_CAUSES" by (simp add: well_shaped_def FLARE_CAUSES_def)
  then show ?thesis
    using generate_flare_data_accepts [OF assms(1,2)]
      negative_normal_std_raises [OF assms(1,2)] FLARE_CAUSES_std
    by blast
qed

theorem configuration_not_validated_witness:
  "(1::int) \<le> 2024 \<and> (2024::int) \<le> 9999
   \<and> well_shaped (FLARE_CAUSES(instrument_failure := Event 60 20 (-1)))
   \<and> probability ((FLARE_CAUSES(instrument_failure := Event 60 20 (-1))) instrument_failure)
       = - 1
   \<and> \<not> isl (generate_flare_data (FLARE_CAUSES(instrument_failure := Event 60 20 (-1)))
              (scripted_lib [] []) 2024 \<lparr>py = [], np = []\<rparr>)
   \<and> well_shaped (FLARE_CAUSES(normal_operations := Baseline 100 (-8)))
   \<and> generate_flare_data (FLARE_CAUSES(normal_operations := Baseline 100 (-8)))
              (scripted_lib [] []) 2024 \<lparr>py = [], np = []\<rparr>
       = Inl (ValueError ''scale < 0'')"
proof -
  have w1: "well_shaped (FLARE_CAUSES(instrument_failure := Event 60 20 (-1)))"
    and w2: "well_shaped (FLARE_CAUSES(normal_operations := Baseline 100 (-8)))"
    by (simp_all add: well_shaped_def FLARE_CAUSES_def)
  have "\<forall>c. 0 \<le> std ((FLARE_CAUSES(instrument_failure := Event 60 20 (-1))) c)"
    using FLARE_CAUSES_std by simp
  with configuration_not_validated [of 2024 "FLARE_CAUSES(instrument_failure := Event 60 20 (-1))"
      "scripted_lib [] []" "\<lparr>py = [], np = []\<rparr>"] w1
  have "\<not> isl (generate_flare_data (FLARE_CAUSES(instrument_failure := Event 60 20 (-1)))
              (scripted_lib [] []) 2024 \<lparr>py = [], np = []\<rparr>)"
    by simp
  moreover from configuration_not_validated
     [of 2024 "FLARE_CAUSES(normal_operations := Baseline 100 (-8))"
      "scripted_lib [] []" "\<lparr>py = [], np = []\<rparr>"] w2
  have "generate_flare_data (FLARE_CAUSES(normal_operations := Baseline 100 (-8)))
              (scripted_lib [] []) 2024 \<lparr>py = [], np = []\<rparr>
       = Inl (ValueError ''scale < 0'')"
    by simp
  ultimately show ?thesis using w1 w2 by simp
qed

subsection \<open>C10: the four shutdown windows\<close>



end
